theory Spec2Isabelle
  imports Complex_Main "HOL-Library.Sublist"
begin

section \<open>JavaScript values used by the request pipeline\<close>

text \<open>
  The retry loops of the repository are the JavaScript functions
  \<^verbatim>\<open>NotionClientSimple.request\<close> and
  \<^verbatim>\<open>NotionClientWithRateLimiting.executeWithRetry\<close>. Both compute with JavaScript
  numbers. A number is modelled as \<open>NaN\<close> or a real value: every delay the loops compute
  is an integer or an integer scaled by the jitter factor. The rounding of doubles above
  \<open>2 ^ 53\<close> and the infinite values (reached only after more than a thousand doublings)
  are outside the model.
\<close>

datatype number = NaN | Num real

fun times_number :: "number \<Rightarrow> number \<Rightarrow> number" where
  "times_number (Num a) (Num b) = Num (a * b)"
| "times_number _ _ = NaN"

fun plus_number :: "number \<Rightarrow> number \<Rightarrow> number" where
  "plus_number (Num a) (Num b) = Num (a + b)"
| "plus_number _ _ = NaN"

fun minus_number :: "number \<Rightarrow> number \<Rightarrow> number" where
  "minus_number (Num a) (Num b) = Num (a - b)"
| "minus_number _ _ = NaN"

text \<open>
  \<^verbatim>\<open>parseInt(s)\<close> with no radix: leading white space is skipped, a sign is read, a
  prefix \<^verbatim>\<open>0x\<close> selects radix 16, and the longest run of digits of the radix is the
  value; with no digit the result is \<open>NaN\<close>. A character of a string is a code unit
  from 0 to 255, as the value of a response header has them; the white space of
  \<^verbatim>\<open>parseInt\<close> in this range is the six ASCII characters and the no-break space
  \<open>0xA0\<close>.
\<close>

definition is_space :: "char \<Rightarrow> bool" where
  "is_space c =
     (c \<in> set [CHR '' '', CHR 0x09, CHR 0x0A, CHR 0x0B, CHR 0x0C, CHR 0x0D, CHR 0xA0])"

definition digit_val :: "char \<Rightarrow> nat option" where
  "digit_val c =
     (let n = (of_char c :: nat) in
      if 48 \<le> n \<and> n \<le> 57 then Some (n - 48)
      else if 97 \<le> n \<and> n \<le> 122 then Some (n - 87)
      else if 65 \<le> n \<and> n \<le> 90 then Some (n - 55)
      else None)"

definition radix_digit :: "nat \<Rightarrow> char \<Rightarrow> bool" where
  "radix_digit r c = (case digit_val c of None \<Rightarrow> False | Some d \<Rightarrow> d < r)"

fun digits_value :: "nat \<Rightarrow> nat \<Rightarrow> string \<Rightarrow> nat" where
  "digits_value r acc [] = acc"
| "digits_value r acc (c # cs) =
     (case digit_val c of
        None \<Rightarrow> acc
      | Some d \<Rightarrow> if d < r then digits_value r (acc * r + d) cs else acc)"

definition parseInt :: "string \<Rightarrow> number" where
  "parseInt s =
     (let s1 = dropWhile is_space s;
          neg = (case s1 of c # _ \<Rightarrow> c = CHR ''-'' | [] \<Rightarrow> False);
          s2 = (case s1 of
                  c # cs \<Rightarrow> if c = CHR ''+'' \<or> c = CHR ''-'' then cs else s1
                | [] \<Rightarrow> s1);
          hex = (prefix ''0x'' s2 \<or> prefix ''0X'' s2);
          r = (if hex then 16 else 10);
          s3 = (if hex then drop 2 s2 else s2);
          ds = takeWhile (radix_digit r) s3
      in if ds = [] then NaN
         else Num (if neg then - real (digits_value r 0 ds) else real (digits_value r 0 ds)))"

text \<open>\<^verbatim>\<open>s.includes(pat)\<close>: \<open>pat\<close> occurs in \<open>s\<close> as a contiguous substring.\<close>

fun js_includes :: "string \<Rightarrow> string \<Rightarrow> bool" where
  "js_includes [] pat = (pat = [])"
| "js_includes (c # cs) pat = (prefix pat (c # cs) \<or> js_includes cs pat)"

text \<open>
  Truthiness of an optional string (\<^verbatim>\<open>null\<close> and the empty string are falsy) and of an
  optional number (\<^verbatim>\<open>undefined\<close> and \<open>0\<close> are falsy).
\<close>

fun truthy_string :: "string option \<Rightarrow> bool" where
  "truthy_string None = False"
| "truthy_string (Some s) = (s \<noteq> [])"

fun truthy_nat :: "nat option \<Rightarrow> bool" where
  "truthy_nat None = False"
| "truthy_nat (Some n) = (n \<noteq> 0)"

section \<open>Responses, errors and the network\<close>

text \<open>
  JSON values. Numbers are integers here; the pipeline never computes with the numbers
  of a payload.
\<close>

datatype json =
  JNull | JBool bool | JNum int | JStr string | JArr "json list" | JObj "(string \<times> json) list"

text \<open>
  The value \<^verbatim>\<open>response.json()\<close> resolves with, as the retry loops read it: the value
  itself, which is handed back to the caller, and its two properties \<^verbatim>\<open>data.message\<close>
  and \<^verbatim>\<open>data.code\<close> of the upstream error shape \<^verbatim>\<open>{ message: string, code: string }\<close>.
  \<open>data_message\<close> is \<open>None\<close> when \<^verbatim>\<open>data.message\<close> is falsy, and otherwise the string
  that the \<^verbatim>\<open>Error\<close> constructor and the template literal make of it (the property
  itself when it is a string); \<open>data_code\<close> is the property \<^verbatim>\<open>data.code\<close>, \<open>None\<close> when
  it is absent. When the value is \<^verbatim>\<open>null\<close> it has no properties, and reading one throws
  a \<^verbatim>\<open>TypeError\<close>. \<^verbatim>\<open>response.json()\<close> rejects with a syntax error that carries only
  a message when the body is not JSON.
\<close>

record api_data =
  payload :: json
  data_message :: "string option"
  data_code :: "json option"

datatype json_outcome = JsonRejects string | JsonResolves api_data

record response =
  status :: nat
  statusText :: string
  retry_after :: "string option"
  body :: json_outcome

definition ok :: "response \<Rightarrow> bool" where
  "ok r = (200 \<le> status r \<and> status r \<le> 299)"

text \<open>
  A thrown \<^verbatim>\<open>Error\<close>: its message and the properties \<^verbatim>\<open>status\<close> and \<^verbatim>\<open>code\<close> that
  \<^verbatim>\<open>request\<close> sets on an API error. The error with which \<^verbatim>\<open>fetch\<close> rejects and the
  syntax error of \<^verbatim>\<open>response.json()\<close> have neither property.
\<close>

record js_error =
  message :: string
  err_status :: "nat option"
  err_code :: "json option"

definition plain_error :: "string \<Rightarrow> js_error" where
  "plain_error m = \<lparr>message = m, err_status = None, err_code = None\<rparr>"

text \<open>
  The \<^verbatim>\<open>TypeError\<close> of \<^verbatim>\<open>data.message\<close> when \<^verbatim>\<open>data\<close> is \<^verbatim>\<open>null\<close>; the text of
  its message is the engine's.
\<close>

definition null_property_error :: js_error where
  "null_property_error = plain_error ''Cannot read properties of null (reading message)''"

datatype fetch_outcome = FetchRejects string | FetchResolves response

text \<open>
  One run of a retry loop: how many times \<^verbatim>\<open>fetch\<close> was called, the delays handed to
  \<^verbatim>\<open>setTimeout\<close> in order, and the value returned or the error thrown.
\<close>

record run =
  fetches :: nat
  sleeps :: "number list"
  outcome :: "js_error + json"

text \<open>What one pass through the \<^verbatim>\<open>try\<close> block does.\<close>

datatype step = Continue number | Return json | Throw js_error

section \<open>NotionClientSimple.request\<close>

text \<open>\<^verbatim>\<open>Math.pow(2, attempt + 1) * 1000\<close>, the delay of the exponential path.\<close>

definition backoff :: "nat \<Rightarrow> number" where
  "backoff attempt = Num (2 ^ (attempt + 1) * 1000)"

definition waitSeconds :: "string option \<Rightarrow> nat \<Rightarrow> number" where
  "waitSeconds retryAfter attempt =
     (case retryAfter of
        Some h \<Rightarrow> if h \<noteq> [] then parseInt h else Num (2 ^ (attempt + 1))
      | None \<Rightarrow> Num (2 ^ (attempt + 1)))"

text \<open>\<^verbatim>\<open>data.message || response.statusText\<close>\<close>

definition message_or_statusText :: "api_data \<Rightarrow> response \<Rightarrow> string" where
  "message_or_statusText d r =
     (case data_message d of
        Some m \<Rightarrow> if m \<noteq> [] then m else statusText r
      | None \<Rightarrow> statusText r)"

definition api_error :: "response \<Rightarrow> api_data \<Rightarrow> js_error" where
  "api_error r d =
     \<lparr>message = message_or_statusText d r,
      err_status = Some (status r),
      err_code = data_code d\<rparr>"

text \<open>
  The part of the \<^verbatim>\<open>try\<close> block after the 429 branch: parse the body; when the
  response is not \<^verbatim>\<open>ok\<close>, read \<^verbatim>\<open>data.message\<close> (a \<^verbatim>\<open>TypeError\<close> when \<^verbatim>\<open>data\<close>
  is \<^verbatim>\<open>null\<close>) and throw the API error; return the data otherwise.
\<close>

definition request_parse :: "response \<Rightarrow> step" where
  "request_parse r =
     (case body r of
        JsonRejects m \<Rightarrow> Throw (plain_error m)
      | JsonResolves d \<Rightarrow>
          if \<not> ok r then
            (if payload d = JNull then Throw null_property_error else Throw (api_error r d))
          else Return (payload d))"

definition request_try :: "fetch_outcome \<Rightarrow> nat \<Rightarrow> nat \<Rightarrow> step" where
  "request_try fetched maxRetries attempt =
     (case fetched of
        FetchRejects m \<Rightarrow> Throw (plain_error m)
      | FetchResolves r \<Rightarrow>
          if status r = 429 then
            (let seconds = waitSeconds (retry_after r) attempt
             in if attempt < maxRetries - 1
                then Continue (times_number seconds (Num 1000))
                else request_parse r)
          else request_parse r)"

text \<open>
  The \<^verbatim>\<open>while\<close> loop with its \<^verbatim>\<open>catch\<close> block. \<open>n\<close> counts the calls of \<^verbatim>\<open>fetch\<close>
  and \<open>ds\<close> collects the delays. Inside the loop \<open>maxRetries\<close> is positive, so
  \<open>maxRetries - 1\<close> on natural numbers is the number the code computes.
\<close>

function request_loop ::
  "(nat \<Rightarrow> fetch_outcome) \<Rightarrow> nat \<Rightarrow> nat \<Rightarrow> nat \<Rightarrow> number list \<Rightarrow> run" where
  "request_loop net maxRetries attempt n ds =
     (if attempt < maxRetries then
        (case request_try (net n) maxRetries attempt of
           Continue d \<Rightarrow> request_loop net maxRetries (attempt + 1) (n + 1) (ds @ [d])
         | Return v \<Rightarrow> \<lparr>fetches = n + 1, sleeps = ds, outcome = Inr v\<rparr>
         | Throw e \<Rightarrow>
             if attempt < maxRetries - 1 \<and> \<not> truthy_nat (err_status e)
             then request_loop net maxRetries (attempt + 1) (n + 1) (ds @ [backoff attempt])
             else \<lparr>fetches = n + 1, sleeps = ds, outcome = Inl e\<rparr>)
      else \<lparr>fetches = n, sleeps = ds, outcome = Inl (plain_error ''Max retries exceeded'')\<rparr>)"
  by pat_completeness auto
termination
  by (relation "measure (\<lambda>(net, maxRetries, attempt, n, ds). maxRetries - attempt)") auto

definition request :: "(nat \<Rightarrow> fetch_outcome) \<Rightarrow> nat \<Rightarrow> run" where
  "request net maxRetries = request_loop net maxRetries 0 0 []"

section \<open>NotionClientWithRateLimiting.executeWithRetry\<close>

text \<open>
  The variable \<^verbatim>\<open>delay\<close> of the 429 branch, and \<^verbatim>\<open>finalDelay\<close>, which adds the
  jitter \<^verbatim>\<open>delay * 0.25 * (Math.random() * 2 - 1)\<close>. The value of \<^verbatim>\<open>Math.random()\<close> is
  an input of the model. The call of \<^verbatim>\<open>this.throttle()\<close> at the head of every iteration
  waits on the wall clock and changes no variable of the loop; it is not part of the
  model.
\<close>

definition rate_limit_delay :: "string option \<Rightarrow> nat \<Rightarrow> number" where
  "rate_limit_delay retryAfter attempt =
     (case retryAfter of
        Some h \<Rightarrow> if h \<noteq> [] then times_number (parseInt h) (Num 1000) else backoff attempt
      | None \<Rightarrow> backoff attempt)"

definition finalDelay :: "number \<Rightarrow> real \<Rightarrow> number" where
  "finalDelay delay random =
     plus_number delay
       (times_number (times_number delay (Num 0.25))
          (minus_number (times_number (Num random) (Num 2)) (Num 1)))"

definition executeWithRetry_parse :: "response \<Rightarrow> step" where
  "executeWithRetry_parse r =
     (case body r of
        JsonRejects m \<Rightarrow> Throw (plain_error m)
      | JsonResolves d \<Rightarrow>
          if \<not> ok r then
            (if payload d = JNull then Throw null_property_error
             else Throw (plain_error (''Notion API error: '' @ message_or_statusText d r)))
          else Return (payload d))"

definition executeWithRetry_try :: "fetch_outcome \<Rightarrow> real \<Rightarrow> nat \<Rightarrow> nat \<Rightarrow> step" where
  "executeWithRetry_try fetched random maxRetries attempt =
     (case fetched of
        FetchRejects m \<Rightarrow> Throw (plain_error m)
      | FetchResolves r \<Rightarrow>
          if status r = 429 then
            (let delay = rate_limit_delay (retry_after r) attempt
             in if attempt < maxRetries - 1
                then Continue (finalDelay delay random)
                else executeWithRetry_parse r)
          else executeWithRetry_parse r)"

function executeWithRetry_loop ::
  "(nat \<Rightarrow> fetch_outcome) \<Rightarrow> (nat \<Rightarrow> real) \<Rightarrow> nat \<Rightarrow> nat \<Rightarrow> nat \<Rightarrow> number list \<Rightarrow> run" where
  "executeWithRetry_loop net rnd maxRetries attempt n ds =
     (if attempt < maxRetries then
        (case executeWithRetry_try (net n) (rnd n) maxRetries attempt of
           Continue d \<Rightarrow> executeWithRetry_loop net rnd maxRetries (attempt + 1) (n + 1) (ds @ [d])
         | Return v \<Rightarrow> \<lparr>fetches = n + 1, sleeps = ds, outcome = Inr v\<rparr>
         | Throw e \<Rightarrow>
             if attempt < maxRetries - 1 \<and> \<not> js_includes (message e) ''Notion API error''
             then executeWithRetry_loop net rnd maxRetries (attempt + 1) (n + 1)
                    (ds @ [backoff attempt])
             else \<lparr>fetches = n + 1, sleeps = ds, outcome = Inl e\<rparr>)
      else \<lparr>fetches = n, sleeps = ds, outcome = Inl (plain_error ''Max retries exceeded'')\<rparr>)"
  by pat_completeness auto
termination
  by (relation "measure (\<lambda>(net, rnd, maxRetries, attempt, n, ds). maxRetries - attempt)") auto

definition executeWithRetry :: "(nat \<Rightarrow> fetch_outcome) \<Rightarrow> (nat \<Rightarrow> real) \<Rightarrow> nat \<Rightarrow> run" where
  "executeWithRetry net rnd maxRetries = executeWithRetry_loop net rnd maxRetries 0 0 []"

section \<open>Pagination walks\<close>

text \<open>
  One page of a list endpoint, with the three properties the walks read. The property
  \<^verbatim>\<open>next_cursor\<close> is \<^verbatim>\<open>null\<close> (or absent) or a string.
\<close>

record 'a page =
  results :: "'a list"
  has_more :: bool
  next_cursor :: "string option"

text \<open>
  The paginated call (\<^verbatim>\<open>client.queryDatabase\<close>, \<^verbatim>\<open>notion_databases\<close>,
  \<^verbatim>\<open>notion_pages\<close>) is an input of the model: the outcome of the \<open>k\<close>-th call of one
  walk, a thrown error or a page. A walk is deterministic, so the sequence of outcomes
  fixes its behaviour whatever the server computes from the cursor. The result records
  the \<^verbatim>\<open>start_cursor\<close> of every call in order, and what the walk returns or throws.
\<close>

record ('e, 'a) walk =
  requested :: "string option list"
  returned :: "'e + 'a list"

subsection \<open>paginateQuery\<close>

function paginateQuery_loop ::
  "(nat \<Rightarrow> 'e + 'a page) \<Rightarrow> nat \<Rightarrow> nat \<Rightarrow> string option \<Rightarrow> 'a list \<Rightarrow> string option list
    \<Rightarrow> ('e, 'a) walk" where
  "paginateQuery_loop notion_databases maxAttempts attempts cursor allResults cursors =
     (if attempts < maxAttempts then
        (case notion_databases (length cursors) of
           Inl e \<Rightarrow> \<lparr>requested = cursors @ [cursor], returned = Inl e\<rparr>
         | Inr response \<Rightarrow>
             if \<not> has_more response \<or> \<not> truthy_string (next_cursor response)
                \<or> next_cursor response = Some ''null''
             then \<lparr>requested = cursors @ [cursor], returned = Inr (allResults @ results response)\<rparr>
             else paginateQuery_loop notion_databases maxAttempts (attempts + 1)
                    (next_cursor response) (allResults @ results response) (cursors @ [cursor]))
      else \<lparr>requested = cursors, returned = Inr allResults\<rparr>)"
  by pat_completeness auto
termination
  by (relation "measure (\<lambda>(q, maxAttempts, attempts, cursor, allResults, cursors). maxAttempts - attempts)")
    auto

definition paginateQuery :: "(nat \<Rightarrow> 'e + 'a page) \<Rightarrow> ('e, 'a) walk" where
  "paginateQuery notion_databases = paginateQuery_loop notion_databases 100 0 None [] []"

subsection \<open>getAllDatabaseRows\<close>

text \<open>
  A \<^verbatim>\<open>do ... while (cursor && pageCount < maxPages)\<close> loop: the function below is one
  pass through the body followed by the test.
\<close>

function getAllDatabaseRows_loop ::
  "(nat \<Rightarrow> 'e + 'a page) \<Rightarrow> nat \<Rightarrow> nat \<Rightarrow> string option \<Rightarrow> 'a list \<Rightarrow> string option list
    \<Rightarrow> ('e, 'a) walk" where
  "getAllDatabaseRows_loop queryDatabase maxPages pageCount cursor allRows cursors =
     (case queryDatabase (length cursors) of
        Inl e \<Rightarrow> \<lparr>requested = cursors @ [cursor], returned = Inl e\<rparr>
      | Inr response \<Rightarrow>
          if has_more response \<and> truthy_string (next_cursor response)
             \<and> next_cursor response \<noteq> Some ''null''
          then
            if truthy_string (next_cursor response) \<and> pageCount + 1 < maxPages
            then getAllDatabaseRows_loop queryDatabase maxPages (pageCount + 1)
                   (next_cursor response) (allRows @ results response) (cursors @ [cursor])
            else \<lparr>requested = cursors @ [cursor], returned = Inr (allRows @ results response)\<rparr>
          else \<lparr>requested = cursors @ [cursor], returned = Inr (allRows @ results response)\<rparr>)"
  by pat_completeness auto
termination
  by (relation "measure (\<lambda>(q, maxPages, pageCount, cursor, allRows, cursors). maxPages - pageCount)")
    auto

definition getAllDatabaseRows :: "(nat \<Rightarrow> 'e + 'a page) \<Rightarrow> ('e, 'a) walk" where
  "getAllDatabaseRows queryDatabase = getAllDatabaseRows_loop queryDatabase 100 0 None [] []"

subsection \<open>getFullProperty\<close>

text \<open>
  A \<^verbatim>\<open>while (true)\<close> loop with no bound on the number of pages: the walk may not
  return, which is the value \<open>None\<close>.
\<close>

partial_function (option) getFullProperty_loop ::
  "(nat \<Rightarrow> 'e + 'a page) \<Rightarrow> string option \<Rightarrow> 'a list \<Rightarrow> string option list
    \<Rightarrow> ('e, 'a) walk option" where
  "getFullProperty_loop notion_pages cursor allItems cursors =
     (case notion_pages (length cursors) of
        Inl e \<Rightarrow> Some \<lparr>requested = cursors @ [cursor], returned = Inl e\<rparr>
      | Inr response \<Rightarrow>
          if \<not> has_more response
          then Some \<lparr>requested = cursors @ [cursor], returned = Inr (allItems @ results response)\<rparr>
          else getFullProperty_loop notion_pages (next_cursor response)
                 (allItems @ results response) (cursors @ [cursor]))"

declare getFullProperty_loop.simps [code]

definition getFullProperty :: "(nat \<Rightarrow> 'e + 'a page) \<Rightarrow> ('e, 'a) walk option" where
  "getFullProperty notion_pages = getFullProperty_loop notion_pages None [] []"

section \<open>The CallToolRequest handler of http-server.js\<close>

text \<open>
  The request reaches the handler after the SDK has checked it against
  \<^verbatim>\<open>CallToolRequestSchema\<close>: \<^verbatim>\<open>params.name\<close> is a string and \<^verbatim>\<open>params.arguments\<close> is
  absent or an object, here the list of its members (their keys distinct).
\<close>

record call_tool_request =
  tool_name :: string
  arguments :: "(string \<times> json) list option"

text \<open>Truthiness of a property value; \<open>None\<close> is \<^verbatim>\<open>undefined\<close>.\<close>

fun truthy :: "json option \<Rightarrow> bool" where
  "truthy None = False"
| "truthy (Some JNull) = False"
| "truthy (Some (JBool b)) = b"
| "truthy (Some (JNum n)) = (n \<noteq> 0)"
| "truthy (Some (JStr s)) = (s \<noteq> [])"
| "truthy (Some (JArr xs)) = True"
| "truthy (Some (JObj kvs)) = True"

text \<open>\<^verbatim>\<open>typeof v === 'object'\<close>\<close>

fun typeof_object :: "json \<Rightarrow> bool" where
  "typeof_object JNull = True"
| "typeof_object (JArr xs) = True"
| "typeof_object (JObj kvs) = True"
| "typeof_object v = False"

text \<open>
  A thrown value: an \<^verbatim>\<open>Error\<close> with its message, or any other value, given by the
  string \<^verbatim>\<open>String(value)\<close>.
\<close>

datatype thrown = ErrorObject string | OtherValue string

text \<open>
  The methods of \<^verbatim>\<open>NotionClientWrapper\<close> the handler calls, with the argument values
  it passes. The client itself is an input of the model: each call returns a JSON value
  or throws.
\<close>

datatype client_call =
    AppendBlockChildren "json option" "json option"
  | RetrieveBlock "json option"
  | RetrieveBlockChildren "json option" "json option" "json option"
  | DeleteBlock "json option"
  | UpdateBlock "json option" "json option"
  | RetrievePage "json option"
  | UpdatePageProperties "json option" "json option"
  | ListAllUsers "json option" "json option"
  | RetrieveUser "json option"
  | RetrieveBotUser
  | CreateDatabase "json option" "json option" "json option" "json option"
  | QueryDatabase "json option" "json option" "json option" "json option" "json option"
  | RetrieveDatabase "json option"
  | UpdateDatabase "json option" "json option" "json option" "json option"
  | CreateDatabaseItem "json option" "json option"
  | CreateComment "json option" "json option"
  | RetrieveComments "json option" "json option" "json option"
  | Search "json option" "json option" "json option" "json option" "json option"

record content_item =
  item_type :: string
  item_text :: string

record tool_result =
  content :: "content_item list"

text \<open>The \<^verbatim>\<open>switch (request.params.name)\<close> statement.\<close>

definition call_tool_switch ::
  "(client_call \<Rightarrow> thrown + json) \<Rightarrow> string \<Rightarrow> (string \<times> json) list \<Rightarrow> thrown + json" where
  "call_tool_switch notionClient name args =
     (
      if name = ''notion_append_block_children'' then
        (if \<not> truthy (map_of args ''block_id'') \<or> \<not> truthy (map_of args ''children'')
         then Inl (ErrorObject ''Missing required arguments: block_id and children'')
         else notionClient (AppendBlockChildren
             (map_of args ''block_id'') (map_of args ''children'')))
      else if name = ''notion_retrieve_block'' then
        (if \<not> truthy (map_of args ''block_id'')
         then Inl (ErrorObject ''Missing required argument: block_id'')
         else notionClient (RetrieveBlock (map_of args ''block_id'')))
      else if name = ''notion_retrieve_block_children'' then
        (if \<not> truthy (map_of args ''block_id'')
         then Inl (ErrorObject ''Missing required argument: block_id'')
         else notionClient (RetrieveBlockChildren
             (map_of args ''block_id'') (map_of args ''start_cursor'')
             (map_of args ''page_size'')))
      else if name = ''notion_delete_block'' then
        (if \<not> truthy (map_of args ''block_id'')
         then Inl (ErrorObject ''Missing required argument: block_id'')
         else notionClient (DeleteBlock (map_of args ''block_id'')))
      else if name = ''notion_update_block'' then
        (if \<not> truthy (map_of args ''block_id'') \<or> \<not> truthy (map_of args ''block'')
         then Inl (ErrorObject ''Missing required arguments: block_id and block'')
         else notionClient (UpdateBlock (map_of args ''block_id'') (map_of args ''block'')))
      else if name = ''notion_retrieve_page'' then
        (if \<not> truthy (map_of args ''page_id'')
         then Inl (ErrorObject ''Missing required argument: page_id'')
         else notionClient (RetrievePage (map_of args ''page_id'')))
      else if name = ''notion_update_page_properties'' then
        (if \<not> truthy (map_of args ''page_id'') \<or> \<not> truthy (map_of args ''properties'')
         then Inl (ErrorObject ''Missing required arguments: page_id and properties'')
         else notionClient (UpdatePageProperties
             (map_of args ''page_id'') (map_of args ''properties'')))
      else if name = ''notion_list_all_users'' then
        notionClient (ListAllUsers (map_of args ''start_cursor'') (map_of args ''page_size''))
      else if name = ''notion_retrieve_user'' then
        (if \<not> truthy (map_of args ''user_id'')
         then Inl (ErrorObject ''Missing required argument: user_id'')
         else notionClient (RetrieveUser (map_of args ''user_id'')))
      else if name = ''notion_retrieve_bot_user'' then
        notionClient RetrieveBotUser
      else if name = ''notion_create_database'' then
        (if \<not> truthy (map_of args ''parent'') \<or> \<not> truthy (map_of args ''properties'')
         then Inl (ErrorObject ''Missing required arguments: parent and properties'')
         else notionClient (CreateDatabase
             (map_of args ''parent'') (map_of args ''properties'') (map_of args ''title'')
             (map_of args ''is_inline'')))
      else if name = ''notion_query_database'' then
        (if \<not> truthy (map_of args ''database_id'')
         then Inl (ErrorObject ''Missing required argument: database_id'')
         else notionClient (QueryDatabase
             (map_of args ''database_id'') (map_of args ''filter'') (map_of args ''sorts'')
             (map_of args ''start_cursor'') (map_of args ''page_size'')))
      else if name = ''notion_retrieve_database'' then
        (if \<not> truthy (map_of args ''database_id'')
         then Inl (ErrorObject ''Missing required argument: database_id'')
         else notionClient (RetrieveDatabase (map_of args ''database_id'')))
      else if name = ''notion_update_database'' then
        (if \<not> truthy (map_of args ''database_id'')
         then Inl (ErrorObject ''Missing required argument: database_id'')
         else notionClient (UpdateDatabase
             (map_of args ''database_id'') (map_of args ''title'')
             (map_of args ''description'') (map_of args ''properties'')))
      else if name = ''notion_create_database_item'' then
        (if \<not> truthy (map_of args ''parent'') \<or> \<not> truthy (map_of args ''properties'')
         then Inl (ErrorObject ''Missing required arguments: parent and properties'')
         else notionClient (CreateDatabaseItem
             (map_of args ''parent'') (map_of args ''properties'')))
      else if name = ''notion_create_comment'' then
        (if \<not> truthy (map_of args ''parent'') \<or> \<not> truthy (map_of args ''rich_text'')
         then Inl (ErrorObject ''Missing required arguments: parent and rich_text'')
         else notionClient (CreateComment (map_of args ''parent'') (map_of args ''rich_text'')))
      else if name = ''notion_retrieve_comments'' then
        (if \<not> truthy (map_of args ''block_id'')
         then Inl (ErrorObject ''Missing required argument: block_id'')
         else notionClient (RetrieveComments
             (map_of args ''block_id'') (map_of args ''start_cursor'')
             (map_of args ''page_size'')))
      else if name = ''notion_search'' then
        notionClient (Search
            (map_of args ''query'') (map_of args ''filter'') (map_of args ''sort'')
            (map_of args ''start_cursor'') (map_of args ''page_size''))
      else Inl (ErrorObject (''Unknown tool: '' @ name)))"

text \<open>
  The formatting of the response. \<^verbatim>\<open>JSON.stringify(v, null, 2)\<close> and
  \<^verbatim>\<open>JSON.stringify(v)\<close> are inputs of the model, \<open>stringify2\<close> and \<open>stringify\<close>.
\<close>

definition format_response :: "(json \<Rightarrow> string) \<Rightarrow> bool \<Rightarrow> json \<Rightarrow> tool_result" where
  "format_response stringify2 enableMarkdownConversion response =
     (if enableMarkdownConversion \<and> truthy (Some response) \<and> typeof_object response then
        (let markdown = stringify2 response
         in \<lparr>content = [\<lparr>item_type = ''text'', item_text = markdown\<rparr>]\<rparr>)
      else \<lparr>content = [\<lparr>item_type = ''text'', item_text = stringify2 response\<rparr>]\<rparr>)"

text \<open>The \<^verbatim>\<open>try\<close> block of the handler.\<close>

definition call_tool_try ::
  "(client_call \<Rightarrow> thrown + json) \<Rightarrow> (json \<Rightarrow> string) \<Rightarrow> bool \<Rightarrow> call_tool_request
    \<Rightarrow> thrown + tool_result" where
  "call_tool_try notionClient stringify2 enableMarkdownConversion req =
     (case arguments req of
        None \<Rightarrow> Inl (ErrorObject ''No arguments provided'')
      | Some args \<Rightarrow>
          (case call_tool_switch notionClient (tool_name req) args of
             Inl error \<Rightarrow> Inl error
           | Inr response \<Rightarrow> Inr (format_response stringify2 enableMarkdownConversion response)))"

text \<open>\<^verbatim>\<open>error instanceof Error ? error.message : String(error)\<close>\<close>

fun error_message :: "thrown \<Rightarrow> string" where
  "error_message (ErrorObject m) = m"
| "error_message (OtherValue s) = s"

definition error_result :: "(json \<Rightarrow> string) \<Rightarrow> thrown \<Rightarrow> tool_result" where
  "error_result stringify error =
     \<lparr>content = [\<lparr>item_type = ''text'',
                   item_text = stringify (JObj [(''error'', JStr (error_message error))])\<rparr>]\<rparr>"

text \<open>
  The handler: the \<^verbatim>\<open>try\<close> block and its \<^verbatim>\<open>catch\<close>. A result \<open>Inl\<close> would be an
  exception that leaves the handler.
\<close>

definition call_tool_handler ::
  "(client_call \<Rightarrow> thrown + json) \<Rightarrow> (json \<Rightarrow> string) \<Rightarrow> (json \<Rightarrow> string) \<Rightarrow> bool
    \<Rightarrow> call_tool_request \<Rightarrow> thrown + tool_result" where
  "call_tool_handler notionClient stringify2 stringify enableMarkdownConversion req =
     (case call_tool_try notionClient stringify2 enableMarkdownConversion req of
        Inr result \<Rightarrow> Inr result
      | Inl error \<Rightarrow> Inr (error_result stringify error))"

section \<open>The cursor check and the inputs of the scenarios\<close>

text \<open>
  The test both bounded walks apply to a page before they go on to the next one:
  \<^verbatim>\<open>has_more && next_cursor && next_cursor !== 'null'\<close>.
\<close>

definition continues :: "'a page \<Rightarrow> bool" where
  "continues p = (has_more p \<and> truthy_string (next_cursor p) \<and> next_cursor p \<noteq> Some ''null'')"

text \<open>A sequence of outcomes that replays a list and then repeats one outcome for ever.\<close>

definition script :: "'a list \<Rightarrow> 'a \<Rightarrow> nat \<Rightarrow> 'a" where
  "script xs d k = (if k < length xs then xs ! k else d)"

text \<open>\<^verbatim>\<open>Math.random()\<close> returning one half every time: the jitter is zero.\<close>

definition no_jitter :: "nat \<Rightarrow> real" where
  "no_jitter k = 1 / 2"

text \<open>A response whose body is the JSON object \<^verbatim>\<open>{ "message": msg }\<close>.\<close>

definition json_response :: "nat \<Rightarrow> string \<Rightarrow> string option \<Rightarrow> string \<Rightarrow> response" where
  "json_response st txt ra msg =
     \<lparr>status = st, statusText = txt, retry_after = ra,
      body = JsonResolves \<lparr>payload = JObj [(''message'', JStr msg)],
                            data_message = Some msg, data_code = None\<rparr>\<rparr>"

definition page_200 :: response where
  "page_200 =
     \<lparr>status = 200, statusText = ''OK'', retry_after = None,
      body = JsonResolves \<lparr>payload = JObj [(''object'', JStr ''page'')],
                            data_message = None, data_code = None\<rparr>\<rparr>"

text \<open>A 404 whose body is not JSON, as a proxy in front of the API sends it.\<close>

definition not_json_404 :: response where
  "not_json_404 =
     \<lparr>status = 404, statusText = ''Not Found'', retry_after = None,
      body = JsonRejects ''Unexpected token''\<rparr>"

text \<open>A 429 whose \<^verbatim>\<open>Retry-After\<close> header is a date, the other form HTTP allows.\<close>

definition dated_429 :: response where
  "dated_429 = json_response 429 ''Too Many Requests''
     (Some ''Wed, 21 Oct 2015 07:28:00 GMT'') ''Rate limited''"

text \<open>The responses and networks of the retry scenarios.\<close>

definition limited_429 :: response where
  "limited_429 = json_response 429 ''Too Many Requests'' None ''Rate limited''"


text \<open>A 500 whose body is the JSON value \<^verbatim>\<open>null\<close>.\<close>

definition null_body_500 :: response where
  "null_body_500 =
     \<lparr>status = 500, statusText = ''Internal Server Error'', retry_after = None,
      body = JsonResolves \<lparr>payload = JNull, data_message = None, data_code = None\<rparr>\<rparr>"


text \<open>
  Pages that carry their own number as their one item: a walk that never ends, and a
  walk whose page number \<open>k\<close> is the last one.
\<close>

definition numbered_page :: "bool \<Rightarrow> nat \<Rightarrow> nat page" where
  "numbered_page b i =
     \<lparr>results = [i], has_more = b, next_cursor = (if b then Some ''next'' else None)\<rparr>"

definition endless :: "nat \<Rightarrow> string + nat page" where
  "endless i = Inr (numbered_page True i)"

definition ends_at :: "nat \<Rightarrow> nat \<Rightarrow> string + nat page" where
  "ends_at k i = Inr (numbered_page (i < k) i)"

text \<open>
  Two pages, \<^verbatim>\<open>{results: [1, 2], has_more: true, next_cursor: "c1"}\<close> and
  \<^verbatim>\<open>{results: [3], has_more: false}\<close>; and the upstream quirk, where the first page
  says \<^verbatim>\<open>next_cursor: "null"\<close> instead.
\<close>

definition first_page :: "nat page" where
  "first_page = \<lparr>results = [1, 2], has_more = True, next_cursor = Some ''c1''\<rparr>"

definition last_page :: "nat page" where
  "last_page = \<lparr>results = [3], has_more = False, next_cursor = None\<rparr>"

definition quirk_page :: "nat page" where
  "quirk_page = \<lparr>results = [1, 2], has_more = True, next_cursor = Some ''null''\<rparr>"

definition two_page_walk :: "nat \<Rightarrow> string + nat page" where
  "two_page_walk = script [Inr first_page] (Inr last_page)"

definition quirk_walk :: "nat \<Rightarrow> string + nat page" where
  "quirk_walk = script [Inr quirk_page] (Inr last_page)"

text \<open>The case labels of the handler's \<^verbatim>\<open>switch\<close>.\<close>

definition tool_names :: "string list" where
  "tool_names =
     [''notion_append_block_children'', ''notion_retrieve_block'',
      ''notion_retrieve_block_children'', ''notion_delete_block'', ''notion_update_block'',
      ''notion_retrieve_page'', ''notion_update_page_properties'', ''notion_list_all_users'',
      ''notion_retrieve_user'', ''notion_retrieve_bot_user'', ''notion_create_database'',
      ''notion_query_database'', ''notion_retrieve_database'', ''notion_update_database'',
      ''notion_create_database_item'', ''notion_create_comment'', ''notion_retrieve_comments'',
      ''notion_search'']"

text \<open>
  \<^verbatim>\<open>JSON.stringify(v)\<close> on the JSON values of this model, for ASCII strings: the
  serialiser the scenarios of the handler run with.
\<close>

definition digit_char :: "nat \<Rightarrow> char" where
  "digit_char d = char_of (48 + d)"

function decimal :: "nat \<Rightarrow> string \<Rightarrow> string" where
  "decimal n acc =
     (if n < 10 then digit_char n # acc
      else decimal (n div 10) (digit_char (n mod 10) # acc))"
  by pat_completeness auto
termination
  by (relation "measure fst") auto

definition string_of_int :: "int \<Rightarrow> string" where
  "string_of_int i = (if i < 0 then CHR ''-'' # decimal (nat (- i)) [] else decimal (nat i) [])"

definition hex_digit :: "nat \<Rightarrow> char" where
  "hex_digit d = (if d < 10 then digit_char d else char_of (87 + d))"

definition escape :: "char \<Rightarrow> string" where
  "escape c =
     (let n = (of_char c :: nat) in
      if n = 0x22 then [CHR 0x5C, CHR 0x22]
      else if n = 0x5C then [CHR 0x5C, CHR 0x5C]
      else if n = 0x08 then [CHR 0x5C, CHR ''b'']
      else if n = 0x09 then [CHR 0x5C, CHR ''t'']
      else if n = 0x0A then [CHR 0x5C, CHR ''n'']
      else if n = 0x0C then [CHR 0x5C, CHR ''f'']
      else if n = 0x0D then [CHR 0x5C, CHR ''r'']
      else if n < 0x20
        then [CHR 0x5C, CHR ''u'', CHR ''0'', CHR ''0'', hex_digit (n div 16), hex_digit (n mod 16)]
      else [c])"

definition quote :: "string \<Rightarrow> string" where
  "quote s = CHR 0x22 # concat (map escape s) @ [CHR 0x22]"

fun join :: "string \<Rightarrow> string list \<Rightarrow> string" where
  "join sep [] = []"
| "join sep [x] = x"
| "join sep (x # y # ys) = x @ sep @ join sep (y # ys)"

fun json_stringify :: "json \<Rightarrow> string" where
  "json_stringify JNull = ''null''"
| "json_stringify (JBool b) = (if b then ''true'' else ''false'')"
| "json_stringify (JNum i) = string_of_int i"
| "json_stringify (JStr s) = quote s"
| "json_stringify (JArr xs) = ''['' @ join '','' (map json_stringify xs) @ '']''"
| "json_stringify (JObj kvs) =
     ''{'' @ join '','' (map (\<lambda>(k, v). quote k @ '':'' @ json_stringify v) kvs) @ ''}''"

text \<open>A client on which every call throws.\<close>

definition failing_client :: "client_call \<Rightarrow> thrown + json" where
  "failing_client call = Inl (ErrorObject ''Could not find page'')"

section \<open>Properties of the retry loops\<close>

declare request_loop.simps [simp del] executeWithRetry_loop.simps [simp del]

lemma plain_error_sel [simp]:
  "message (plain_error m) = m" "err_status (plain_error m) = None"
  by (simp_all add: plain_error_def)

lemma request_try_rejects [simp]:
  "request_try (FetchRejects m) maxRetries attempt = Throw (plain_error m)"
  by (simp add: request_try_def)

lemma executeWithRetry_try_rejects [simp]:
  "executeWithRetry_try (FetchRejects m) x maxRetries attempt = Throw (plain_error m)"
  by (simp add: executeWithRetry_try_def)




lemma includes_marker [simp]: "js_includes (''Notion API error: '' @ m) ''Notion API error''"
  by simp

subsection \<open>NotionClientSimple.request\<close>

lemma request_loop_fetches:
  "fetches (request_loop net maxRetries attempt n ds) \<le> n + (maxRetries - attempt)"
proof (induction net maxRetries attempt n ds rule: request_loop.induct)
  case (1 net maxRetries attempt n ds)
  show ?case
  proof (cases "attempt < maxRetries")
    case False
    then show ?thesis by (simp add: request_loop.simps)
  next
    case a: True
    show ?thesis
    proof (cases "request_try (net n) maxRetries attempt")
      case (Continue d)
      with a "1.IH"(1) [OF a Continue] show ?thesis
        by (simp add: request_loop.simps [of net maxRetries attempt])
    next
      case (Return v)
      with a show ?thesis by (simp add: request_loop.simps [of net maxRetries attempt])
    next
      case (Throw e)
      show ?thesis
      proof (cases "attempt < maxRetries - 1 \<and> \<not> truthy_nat (err_status e)")
        case True
        with a Throw "1.IH"(2) [OF a Throw True] show ?thesis
          by (simp add: request_loop.simps [of net maxRetries attempt])
      next
        case False
        with a Throw show ?thesis
          by (auto simp add: request_loop.simps [of net maxRetries attempt])
      qed
    qed
  qed
qed





subsection \<open>executeWithRetry\<close>

lemma executeWithRetry_loop_fetches:
  "fetches (executeWithRetry_loop net rnd maxRetries attempt n ds) \<le> n + (maxRetries - attempt)"
proof (induction net rnd maxRetries attempt n ds rule: executeWithRetry_loop.induct)
  case (1 net rnd maxRetries attempt n ds)
  show ?case
  proof (cases "attempt < maxRetries")
    case False
    then show ?thesis by (simp add: executeWithRetry_loop.simps)
  next
    case a: True
    show ?thesis
    proof (cases "executeWithRetry_try (net n) (rnd n) maxRetries attempt")
      case (Continue d)
      with a "1.IH"(1) [OF a Continue] show ?thesis
        by (simp add: executeWithRetry_loop.simps [of net rnd maxRetries attempt])
    next
      case (Return v)
      with a show ?thesis by (simp add: executeWithRetry_loop.simps [of net rnd maxRetries attempt])
    next
      case (Throw e)
      show ?thesis
      proof (cases "attempt < maxRetries - 1 \<and> \<not> js_includes (message e) ''Notion API error''")
        case True
        with a Throw "1.IH"(2) [OF a Throw True] show ?thesis
          by (simp add: executeWithRetry_loop.simps [of net rnd maxRetries attempt])
      next
        case False
        with a Throw show ?thesis
          by (auto simp add: executeWithRetry_loop.simps [of net rnd maxRetries attempt])
      qed
    qed
  qed
qed





subsection \<open>Delays\<close>

text \<open>
  The delay before jitter when the header parses, and when it is absent or empty. The
  first three delays of the exponential path are 2000, 4000 and 8000 ms.
\<close>

lemma retry_after_delay:
  assumes "h \<noteq> []" and "parseInt h = Num v"
  shows "rate_limit_delay (Some h) attempt = Num (v * 1000)"
    and "times_number (waitSeconds (Some h) attempt) (Num 1000) = Num (v * 1000)"
  using assms by (simp_all add: rate_limit_delay_def waitSeconds_def)

lemma exponential_delay:
  "rate_limit_delay None attempt = Num (2 ^ (attempt + 1) * 1000)"
  "rate_limit_delay (Some []) attempt = Num (2 ^ (attempt + 1) * 1000)"
  "times_number (waitSeconds None attempt) (Num 1000) = Num (2 ^ (attempt + 1) * 1000)"
  "times_number (waitSeconds (Some []) attempt) (Num 1000) = Num (2 ^ (attempt + 1) * 1000)"
  "backoff attempt = Num (2 ^ (attempt + 1) * 1000)"
  by (simp_all add: rate_limit_delay_def waitSeconds_def backoff_def)

lemma first_delays: "map backoff [0, 1, 2] = [Num 2000, Num 4000, Num 8000]"
  by (simp add: backoff_def)

lemma finalDelay_no_jitter: "finalDelay (Num d) (1 / 2) = Num d"
  by (simp add: finalDelay_def)

text \<open>
  Claim C1. The delay before jitter after a 429 is the parsed \<^verbatim>\<open>Retry-After\<close> value
  times 1000 ms when the header is present and parseable, and \<open>2 ^ (attempt + 1) * 1000\<close> ms
  otherwise. The code does not do this for a header that is present and does not parse:
  for the date form of the header \<^verbatim>\<open>parseInt\<close> yields \<open>NaN\<close>, the delay is \<open>NaN\<close> and
  not 2000 ms, and both loops hand \<open>NaN\<close> to \<^verbatim>\<open>setTimeout\<close>.
\<close>

theorem unparseable_retry_after_delay:
  "parseInt ''Wed, 21 Oct 2015 07:28:00 GMT'' = NaN
   \<and> rate_limit_delay (retry_after dated_429) 0 = NaN
   \<and> times_number (waitSeconds (retry_after dated_429) 0) (Num 1000) = NaN
   \<and> sleeps (request (script [FetchResolves dated_429] (FetchResolves page_200)) 3) = [NaN]
   \<and> sleeps (executeWithRetry (script [FetchResolves dated_429] (FetchResolves page_200))
        no_jitter 3) = [NaN]"
proof -
  have p: "parseInt ''Wed, 21 Oct 2015 07:28:00 GMT'' = NaN"
    by (simp add: parseInt_def is_space_def radix_digit_def digit_val_def)
  have r: "rate_limit_delay (retry_after dated_429) 0 = NaN"
    by (simp add: rate_limit_delay_def dated_429_def json_response_def p)
  have w: "times_number (waitSeconds (retry_after dated_429) 0) (Num 1000) = NaN"
    by (simp add: waitSeconds_def dated_429_def json_response_def p)
  have s0: "script [FetchResolves dated_429] (FetchResolves page_200) 0 = FetchResolves dated_429"
    and s1: "script [FetchResolves dated_429] (FetchResolves page_200) (Suc 0) = FetchResolves page_200"
    by (simp_all add: script_def)
  have st: "status dated_429 = 429" "status page_200 = 200"
    "body page_200 = JsonResolves \<lparr>payload = JObj [(''object'', JStr ''page'')],
       data_message = None, data_code = None\<rparr>"
    by (simp_all add: dated_429_def json_response_def page_200_def)
  have a: "sleeps (request (script [FetchResolves dated_429] (FetchResolves page_200)) 3) = [NaN]"
    by (simp add: request_def request_loop.simps request_try_def request_parse_def s0 s1 st w ok_def)
  have b: "sleeps (executeWithRetry (script [FetchResolves dated_429] (FetchResolves page_200))
             no_jitter 3) = [NaN]"
    by (simp add: executeWithRetry_def executeWithRetry_loop.simps executeWithRetry_try_def
        executeWithRetry_parse_def s0 s1 st r ok_def finalDelay_def)
  from p r w a b show ?thesis by simp
qed

subsection \<open>Failures that are retried and failures that are not\<close>

lemma api_error_not_retried:
  assumes "0 < maxRetries" "net 0 = FetchResolves r" "\<not> ok r" "status r \<noteq> 429" "status r \<noteq> 0"
    "body r = JsonResolves d" "payload d \<noteq> JNull"
  shows "request net maxRetries = \<lparr>fetches = 1, sleeps = [], outcome = Inl (api_error r d)\<rparr>
       \<and> executeWithRetry net rnd maxRetries =
         \<lparr>fetches = 1, sleeps = [],
          outcome = Inl (plain_error (''Notion API error: '' @ message_or_statusText d r))\<rparr>"
  using assms
  by (simp add: request_def executeWithRetry_def request_loop.simps [of _ _ 0]
      executeWithRetry_loop.simps [of _ _ _ 0] request_try_def executeWithRetry_try_def request_parse_def executeWithRetry_parse_def api_error_def)

text \<open>
  A response with a status from 400 to 499 other than 429 whose body is a JSON value
  other than \<^verbatim>\<open>null\<close>: one fetch, and the API error is thrown at once.
\<close>

lemma client_error_with_json_body:
  assumes "0 < maxRetries" "net 0 = FetchResolves r" "400 \<le> status r" "status r \<le> 499"
    "status r \<noteq> 429" "body r = JsonResolves d" "payload d \<noteq> JNull"
  shows "request net maxRetries = \<lparr>fetches = 1, sleeps = [], outcome = Inl (api_error r d)\<rparr>
       \<and> executeWithRetry net rnd maxRetries =
         \<lparr>fetches = 1, sleeps = [],
          outcome = Inl (plain_error (''Notion API error: '' @ message_or_statusText d r))\<rparr>"
  using assms by (intro api_error_not_retried) (simp_all add: ok_def)

text \<open>
  When the body of a response that is not \<^verbatim>\<open>ok\<close> is the JSON value \<^verbatim>\<open>null\<close>, reading
  \<^verbatim>\<open>data.message\<close> throws inside the \<^verbatim>\<open>try\<close> block; the error has no \<^verbatim>\<open>status\<close> and
  no \<^verbatim>\<open>Notion API error\<close> in its message, and the \<^verbatim>\<open>catch\<close> retries it like a network
  error.
\<close>

lemma null_body_error_retried:
  "request (script [] (FetchResolves null_body_500)) 3 =
     \<lparr>fetches = 3, sleeps = [Num 2000, Num 4000], outcome = Inl null_property_error\<rparr>"
  "executeWithRetry (script [] (FetchResolves null_body_500)) no_jitter 3 =
     \<lparr>fetches = 3, sleeps = [Num 2000, Num 4000], outcome = Inl null_property_error\<rparr>"
  by (simp_all add: request_def executeWithRetry_def request_loop.simps executeWithRetry_loop.simps
      request_try_def executeWithRetry_try_def request_parse_def executeWithRetry_parse_def
      script_def null_body_500_def null_property_error_def plain_error_def backoff_def ok_def)




text \<open>
  Claim C3. A response with a status from 400 to 499 other than 429 is never retried:
  one fetch, and the error is thrown at once. The code does not do this when the body of
  the response is not JSON: \<^verbatim>\<open>response.json()\<close> rejects inside the \<^verbatim>\<open>try\<close> block
  with an error that has no \<^verbatim>\<open>status\<close> and no \<^verbatim>\<open>Notion API error\<close> in its message,
  the \<^verbatim>\<open>catch\<close> takes it for a network error, and with \<open>maxRetries = 3\<close> both loops fetch
  three times, waiting 2000 and 4000 ms.
\<close>

theorem unparsed_client_error_retried:
  "status not_json_404 = 404
   \<and> request (script [] (FetchResolves not_json_404)) 3 =
     \<lparr>fetches = 3, sleeps = [Num 2000, Num 4000],
      outcome = Inl (plain_error ''Unexpected token'')\<rparr>
   \<and> executeWithRetry (script [] (FetchResolves not_json_404)) no_jitter 3 =
     \<lparr>fetches = 3, sleeps = [Num 2000, Num 4000],
      outcome = Inl (plain_error ''Unexpected token'')\<rparr>"
  by (simp add: request_def executeWithRetry_def request_loop.simps executeWithRetry_loop.simps
      request_try_def executeWithRetry_try_def request_parse_def executeWithRetry_parse_def script_def not_json_404_def plain_error_def
      backoff_def)

text \<open>
  Claim C6. Two 429 responses without a \<^verbatim>\<open>Retry-After\<close> header and then a 200
  response, with \<open>maxRetries = 4\<close>: three fetches are made and the parsed body of the 200
  response is returned; no error is thrown. \<^verbatim>\<open>request\<close> waits 2000 and 4000 ms.
\<close>

theorem two_rate_limits_then_success:
  assumes "net 0 = FetchResolves r0" "status r0 = 429" "retry_after r0 = None"
    and "net 1 = FetchResolves r1" "status r1 = 429" "retry_after r1 = None"
    and "net 2 = FetchResolves r2" "status r2 = 200" "body r2 = JsonResolves d"
  shows "request net 4 =
           \<lparr>fetches = 3, sleeps = [Num 2000, Num 4000], outcome = Inr (payload d)\<rparr>
         \<and> fetches (executeWithRetry net rnd 4) = 3
         \<and> outcome (executeWithRetry net rnd 4) = Inr (payload d)"
  using assms
  by (simp add: request_def executeWithRetry_def request_loop.simps executeWithRetry_loop.simps
      request_try_def executeWithRetry_try_def request_parse_def executeWithRetry_parse_def waitSeconds_def ok_def numeral_2_eq_2)

theorem two_rate_limits_then_success_witness:
  "script [FetchResolves limited_429, FetchResolves limited_429] (FetchResolves page_200) 0
     = FetchResolves limited_429
   \<and> script [FetchResolves limited_429, FetchResolves limited_429] (FetchResolves page_200) 2
     = FetchResolves page_200
   \<and> status limited_429 = 429 \<and> retry_after limited_429 = None \<and> status page_200 = 200
   \<and> request (script [FetchResolves limited_429, FetchResolves limited_429]
        (FetchResolves page_200)) 4 =
       \<lparr>fetches = 3, sleeps = [Num 2000, Num 4000],
        outcome = Inr (JObj [(''object'', JStr ''page'')])\<rparr>
   \<and> fetches (executeWithRetry (script [FetchResolves limited_429, FetchResolves limited_429]
        (FetchResolves page_200)) no_jitter 4) = 3
   \<and> outcome (executeWithRetry (script [FetchResolves limited_429, FetchResolves limited_429]
        (FetchResolves page_200)) no_jitter 4) = Inr (JObj [(''object'', JStr ''page'')])"
proof -
  let ?net = "script [FetchResolves limited_429, FetchResolves limited_429] (FetchResolves page_200)"
  let ?d = "\<lparr>payload = JObj [(''object'', JStr ''page'')], data_message = None, data_code = None\<rparr>"
  have n: "?net 0 = FetchResolves limited_429" "?net 1 = FetchResolves limited_429"
    "?net 2 = FetchResolves page_200"
    by (simp_all add: script_def)
  have r: "status limited_429 = 429" "retry_after limited_429 = None" "status page_200 = 200"
    "body page_200 = JsonResolves ?d"
    by (simp_all add: limited_429_def json_response_def page_200_def)
  from two_rate_limits_then_success [of ?net limited_429 limited_429 page_200 ?d no_jitter,
      OF n(1) r(1) r(2) n(2) r(1) r(2) n(3) r(3) r(4)] n r
  show ?thesis by simp
qed

text \<open>
  Claim C8. For every sequence of outcomes both retry loops terminate: the recursion that
  models the \<^verbatim>\<open>while\<close> loop is well-founded from the initial state, the number of
  attempts that remain (\<open>maxRetries - attempt\<close>) being smaller at every retry. The number
  of fetches of one call is at most \<open>maxRetries\<close>.
\<close>

theorem retry_attempts_bounded:
  "request_loop_dom (net, maxRetries, 0, 0, [])
   \<and> executeWithRetry_loop_dom (net, rnd, maxRetries, 0, 0, [])
   \<and> fetches (request net maxRetries) \<le> maxRetries
   \<and> fetches (executeWithRetry net rnd maxRetries) \<le> maxRetries"
proof -
  have "All request_loop_dom"
    by (rule "request_loop.termination"
        [of "measure (\<lambda>(net, maxRetries, attempt, n, ds). maxRetries - attempt)"]) auto
  then have "request_loop_dom (net, maxRetries, 0, 0, [])"
    by blast
  moreover have "All executeWithRetry_loop_dom"
    by (rule "executeWithRetry_loop.termination"
        [of "measure (\<lambda>(net, rnd, maxRetries, attempt, n, ds). maxRetries - attempt)"]) auto
  then have "executeWithRetry_loop_dom (net, rnd, maxRetries, 0, 0, [])"
    by blast
  moreover have "fetches (request net maxRetries) \<le> maxRetries"
    using request_loop_fetches [of net maxRetries 0 0 "[]"] by (simp add: request_def)
  moreover have "fetches (executeWithRetry net rnd maxRetries) \<le> maxRetries"
    using executeWithRetry_loop_fetches [of net rnd maxRetries 0 0 "[]"]
    by (simp add: executeWithRetry_def)
  ultimately show ?thesis by simp
qed

section \<open>Properties of the pagination walks\<close>

declare paginateQuery_loop.simps [simp del] getAllDatabaseRows_loop.simps [simp del]

lemma served_tail:
  assumes "\<forall>i<length (q # ps). srv (length cursors + i) = Inr ((q # ps) ! i)"
  shows "\<forall>i<length ps. srv (length (cursors @ [cursor]) + i) = Inr (ps ! i)"
proof (intro allI impI)
  fix i assume "i < length ps"
  then have "Suc i < length (q # ps)" by simp
  with assms have "srv (length cursors + Suc i) = Inr ((q # ps) ! Suc i)" by blast
  then show "srv (length (cursors @ [cursor]) + i) = Inr (ps ! i)" by simp
qed

lemma served_head:
  assumes "\<forall>i<length (q # ps). srv (length cursors + i) = Inr ((q # ps) ! i)"
  shows "srv (length cursors) = Inr q"
  using assms by force

subsection \<open>paginateQuery\<close>

text \<open>
  The pages \<open>qs\<close> pass the cursor check, the page \<open>p\<close> after them does not, and the
  ceiling is not reached: the walk requests these pages and no other, and returns all
  their items in order.
\<close>

lemma paginateQuery_loop_stops:
  assumes "\<forall>i<length (qs @ [p]). srv (length cursors + i) = Inr ((qs @ [p]) ! i)"
    and "\<forall>q\<in>set qs. continues q" and "\<not> continues p"
    and "attempts + length qs < maxAttempts"
  shows "paginateQuery_loop srv maxAttempts attempts cursor acc cursors =
         \<lparr>requested = cursors @ cursor # map next_cursor qs,
          returned = Inr (acc @ concat (map results (qs @ [p])))\<rparr>"
  using assms
proof (induction qs arbitrary: attempts cursor acc cursors)
  case Nil
  then have "srv (length cursors) = Inr p" by simp
  with Nil show ?case
    by (subst paginateQuery_loop.simps) (auto simp: continues_def)
next
  case (Cons q qs)
  from Cons.prems(1) have q: "srv (length cursors) = Inr q"
    using served_head [of q "qs @ [p]" srv cursors] by simp
  from Cons.prems(1)
  have rest: "\<forall>i<length (qs @ [p]). srv (length (cursors @ [cursor]) + i) = Inr ((qs @ [p]) ! i)"
    using served_tail [of q "qs @ [p]" srv cursors cursor] by simp
  have "paginateQuery_loop srv maxAttempts attempts cursor acc cursors =
        paginateQuery_loop srv maxAttempts (attempts + 1) (next_cursor q) (acc @ results q)
          (cursors @ [cursor])"
    using q Cons.prems(2,4) by (subst paginateQuery_loop.simps) (auto simp: continues_def)
  also have "\<dots> = \<lparr>requested = (cursors @ [cursor]) @ next_cursor q # map next_cursor qs,
                    returned = Inr ((acc @ results q) @ concat (map results (qs @ [p])))\<rparr>"
    using Cons.prems(2,3,4) by (intro Cons.IH [OF rest]) auto
  finally show ?case by simp
qed

text \<open>Every page passes the cursor check and the ceiling is reached after the pages \<open>ps\<close>.\<close>

lemma paginateQuery_loop_ceiling:
  assumes "\<forall>i<length ps. srv (length cursors + i) = Inr (ps ! i)"
    and "\<forall>q\<in>set ps. continues q"
    and "attempts + length ps = maxAttempts"
  shows "paginateQuery_loop srv maxAttempts attempts cursor acc cursors =
         \<lparr>requested = cursors @ take (length ps) (cursor # map next_cursor ps),
          returned = Inr (acc @ concat (map results ps))\<rparr>"
  using assms
proof (induction ps arbitrary: attempts cursor acc cursors)
  case Nil
  then show ?case by (subst paginateQuery_loop.simps) simp
next
  case (Cons q ps)
  from Cons.prems(1) have q: "srv (length cursors) = Inr q" by (rule served_head)
  from Cons.prems(1)
  have rest: "\<forall>i<length ps. srv (length (cursors @ [cursor]) + i) = Inr (ps ! i)"
    by (rule served_tail)
  have "paginateQuery_loop srv maxAttempts attempts cursor acc cursors =
        paginateQuery_loop srv maxAttempts (attempts + 1) (next_cursor q) (acc @ results q)
          (cursors @ [cursor])"
    using q Cons.prems(2,3) by (subst paginateQuery_loop.simps) (auto simp: continues_def)
  also have "\<dots> = \<lparr>requested = (cursors @ [cursor])
                        @ take (length ps) (next_cursor q # map next_cursor ps),
                    returned = Inr ((acc @ results q) @ concat (map results ps))\<rparr>"
    using Cons.prems(2,3) by (intro Cons.IH [OF rest]) auto
  finally show ?case by simp
qed

subsection \<open>getAllDatabaseRows\<close>

lemma getAllDatabaseRows_loop_stops:
  assumes "\<forall>i<length (qs @ [p]). srv (length cursors + i) = Inr ((qs @ [p]) ! i)"
    and "\<forall>q\<in>set qs. continues q" and "\<not> continues p"
    and "pageCount + length qs < maxPages"
  shows "getAllDatabaseRows_loop srv maxPages pageCount cursor acc cursors =
         \<lparr>requested = cursors @ cursor # map next_cursor qs,
          returned = Inr (acc @ concat (map results (qs @ [p])))\<rparr>"
  using assms
proof (induction qs arbitrary: pageCount cursor acc cursors)
  case Nil
  then have "srv (length cursors) = Inr p" by simp
  with Nil show ?case
    by (subst getAllDatabaseRows_loop.simps) (auto simp: continues_def)
next
  case (Cons q qs)
  from Cons.prems(1) have q: "srv (length cursors) = Inr q"
    using served_head [of q "qs @ [p]" srv cursors] by simp
  from Cons.prems(1)
  have rest: "\<forall>i<length (qs @ [p]). srv (length (cursors @ [cursor]) + i) = Inr ((qs @ [p]) ! i)"
    using served_tail [of q "qs @ [p]" srv cursors cursor] by simp
  have "getAllDatabaseRows_loop srv maxPages pageCount cursor acc cursors =
        getAllDatabaseRows_loop srv maxPages (pageCount + 1) (next_cursor q) (acc @ results q)
          (cursors @ [cursor])"
    using q Cons.prems(2,4) by (subst getAllDatabaseRows_loop.simps) (auto simp: continues_def)
  also have "\<dots> = \<lparr>requested = (cursors @ [cursor]) @ next_cursor q # map next_cursor qs,
                    returned = Inr ((acc @ results q) @ concat (map results (qs @ [p])))\<rparr>"
    using Cons.prems(2,3,4) by (intro Cons.IH [OF rest]) auto
  finally show ?case by simp
qed

lemma getAllDatabaseRows_loop_ceiling:
  assumes "\<forall>i<length ps. srv (length cursors + i) = Inr (ps ! i)"
    and "\<forall>q\<in>set ps. continues q" and "ps \<noteq> []"
    and "pageCount + length ps = maxPages"
  shows "getAllDatabaseRows_loop srv maxPages pageCount cursor acc cursors =
         \<lparr>requested = cursors @ take (length ps) (cursor # map next_cursor ps),
          returned = Inr (acc @ concat (map results ps))\<rparr>"
  using assms
proof (induction ps arbitrary: pageCount cursor acc cursors)
  case Nil
  then show ?case by simp
next
  case (Cons q ps)
  from Cons.prems(1) have q: "srv (length cursors) = Inr q" by (rule served_head)
  show ?case
  proof (cases ps)
    case Nil
    with q Cons.prems(2,4) show ?thesis
      by (subst getAllDatabaseRows_loop.simps) (auto simp: continues_def)
  next
    case tail: (Cons q' ps')
    from Cons.prems(1)
    have rest: "\<forall>i<length ps. srv (length (cursors @ [cursor]) + i) = Inr (ps ! i)"
      by (rule served_tail)
    have "getAllDatabaseRows_loop srv maxPages pageCount cursor acc cursors =
          getAllDatabaseRows_loop srv maxPages (pageCount + 1) (next_cursor q) (acc @ results q)
            (cursors @ [cursor])"
      using q Cons.prems(2,4) tail
      by (subst getAllDatabaseRows_loop.simps) (auto simp: continues_def)
    also have "\<dots> = \<lparr>requested = (cursors @ [cursor])
                          @ take (length ps) (next_cursor q # map next_cursor ps),
                      returned = Inr ((acc @ results q) @ concat (map results ps))\<rparr>"
      using Cons.prems(2,4) tail by (intro Cons.IH [OF rest]) auto
    finally show ?thesis by simp
  qed
qed

subsection \<open>The walks on the scenario inputs\<close>

lemma numbered_pages:
  "\<forall>q\<in>set (map (numbered_page True) [0..<n]). continues q"
  "\<not> continues (numbered_page False i)"
  "concat (map results (map (numbered_page b) [0..<n])) = [0..<n]"
  "map next_cursor (map (numbered_page True) [0..<n]) = replicate n (Some ''next'')"
  by (simp_all add: numbered_page_def continues_def comp_def map_replicate_const)

lemma endless_walk:
  "paginateQuery endless =
     \<lparr>requested = None # replicate 99 (Some ''next''), returned = Inr [0..<100]\<rparr>"
  "getAllDatabaseRows endless =
     \<lparr>requested = None # replicate 99 (Some ''next''), returned = Inr [0..<100]\<rparr>"
proof -
  let ?ps = "map (numbered_page True) [0..<100]"
  have served: "\<forall>i<length ?ps. endless (length ([] :: string option list) + i) = Inr (?ps ! i)"
    by (simp add: endless_def)
  have cut: "take (length ?ps) (None # map next_cursor ?ps) = None # replicate 99 (Some ''next'')"
    unfolding numbered_pages(4) by simp
  show "paginateQuery endless =
          \<lparr>requested = None # replicate 99 (Some ''next''), returned = Inr [0..<100]\<rparr>"
    using paginateQuery_loop_ceiling [OF served numbered_pages(1), of 0 100 None "[]"]
    unfolding paginateQuery_def cut numbered_pages(3) by simp
  show "getAllDatabaseRows endless =
          \<lparr>requested = None # replicate 99 (Some ''next''), returned = Inr [0..<100]\<rparr>"
    using getAllDatabaseRows_loop_ceiling [OF served numbered_pages(1), of 0 100 None "[]"]
    unfolding getAllDatabaseRows_def cut numbered_pages(3) by simp
qed

lemma ends_at_walk:
  assumes "k < 100"
  shows "paginateQuery (ends_at k) =
           \<lparr>requested = None # replicate k (Some ''next''), returned = Inr [0..<Suc k]\<rparr>"
    and "getAllDatabaseRows (ends_at k) =
           \<lparr>requested = None # replicate k (Some ''next''), returned = Inr [0..<Suc k]\<rparr>"
proof -
  let ?qs = "map (numbered_page True) [0..<k]"
  let ?p = "numbered_page False k"
  have served: "\<forall>i<length (?qs @ [?p]).
      ends_at k (length ([] :: string option list) + i) = Inr ((?qs @ [?p]) ! i)"
    by (auto simp: ends_at_def nth_append less_Suc_eq)
  have all: "concat (map results (?qs @ [?p])) = [0..<Suc k]"
    using numbered_pages(3) [of True k] by (simp add: numbered_page_def)
  have below: "0 + length ?qs < 100"
    using assms by simp
  show "paginateQuery (ends_at k) =
          \<lparr>requested = None # replicate k (Some ''next''), returned = Inr [0..<Suc k]\<rparr>"
    using paginateQuery_loop_stops [OF served numbered_pages(1) numbered_pages(2) below,
        of None "[]"]
    unfolding paginateQuery_def all numbered_pages(4) by simp
  show "getAllDatabaseRows (ends_at k) =
          \<lparr>requested = None # replicate k (Some ''next''), returned = Inr [0..<Suc k]\<rparr>"
    using getAllDatabaseRows_loop_stops [OF served numbered_pages(1) numbered_pages(2) below,
        of None "[]"]
    unfolding getAllDatabaseRows_def all numbered_pages(4) by simp
qed

lemma two_page_walk_served:
  "two_page_walk 0 = Inr first_page" "two_page_walk (Suc 0) = Inr last_page"
  "quirk_walk 0 = Inr quirk_page" "quirk_walk (Suc 0) = Inr last_page"
  by (simp_all add: two_page_walk_def quirk_walk_def script_def)

lemma quirk_bounded_walks:
  "paginateQuery quirk_walk = \<lparr>requested = [None], returned = Inr [1, 2]\<rparr>"
  "getAllDatabaseRows quirk_walk = \<lparr>requested = [None], returned = Inr [1, 2]\<rparr>"
  by (simp_all add: paginateQuery_def getAllDatabaseRows_def paginateQuery_loop.simps [of _ _ 0]
      getAllDatabaseRows_loop.simps [of _ _ 0] two_page_walk_served quirk_page_def)

subsection \<open>The cursor check\<close>

text \<open>
  The two bounded walks stop at a page that says \<^verbatim>\<open>has_more: true\<close> with a
  \<^verbatim>\<open>next_cursor\<close> that is absent, empty or \<^verbatim>\<open>"null"\<close>: they return what they have,
  and the cursors they sent are those of the pages before it.
\<close>

lemma bounded_walks_stop_at_unusable_cursor:
  assumes "\<forall>i<length (qs @ [p]). srv i = Inr ((qs @ [p]) ! i)"
    and "\<forall>q\<in>set qs. continues q" and "length qs < 100"
    and "next_cursor p = None \<or> next_cursor p = Some [] \<or> next_cursor p = Some ''null''"
  shows "paginateQuery srv =
           \<lparr>requested = None # map next_cursor qs,
            returned = Inr (concat (map results (qs @ [p])))\<rparr>"
    and "getAllDatabaseRows srv =
           \<lparr>requested = None # map next_cursor qs,
            returned = Inr (concat (map results (qs @ [p])))\<rparr>"
    and "Some ''null'' \<notin> set (None # map next_cursor qs)"
proof -
  from assms(1)
  have served: "\<forall>i<length (qs @ [p]).
      srv (length ([] :: string option list) + i) = Inr ((qs @ [p]) ! i)"
    by simp
  from assms(4) have stop: "\<not> continues p"
    by (auto simp: continues_def)
  from assms(3) have below: "0 + length qs < 100"
    by simp
  show "paginateQuery srv =
          \<lparr>requested = None # map next_cursor qs,
           returned = Inr (concat (map results (qs @ [p])))\<rparr>"
    using paginateQuery_loop_stops [OF served assms(2) stop below, of None "[]"]
    by (simp add: paginateQuery_def)
  show "getAllDatabaseRows srv =
          \<lparr>requested = None # map next_cursor qs,
           returned = Inr (concat (map results (qs @ [p])))\<rparr>"
    using getAllDatabaseRows_loop_stops [OF served assms(2) stop below, of None "[]"]
    by (simp add: getAllDatabaseRows_def)
  show "Some ''null'' \<notin> set (None # map next_cursor qs)"
    using assms(2) by (auto simp: continues_def)
qed

text \<open>
  Claim C4. After a page with \<^verbatim>\<open>has_more: true\<close> whose \<^verbatim>\<open>next_cursor\<close> is absent,
  empty or \<^verbatim>\<open>"null"\<close>, every walk stops without error and sends no request with the
  cursor \<^verbatim>\<open>"null"\<close>. \<^verbatim>\<open>getFullProperty\<close> does not do this: it tests \<^verbatim>\<open>has_more\<close>
  alone, and after the quirk page its second request carries the cursor \<^verbatim>\<open>"null"\<close>.
\<close>

theorem getFullProperty_requests_null_cursor:
  "has_more quirk_page \<and> next_cursor quirk_page = Some ''null''
   \<and> getFullProperty quirk_walk =
       Some \<lparr>requested = [None, Some ''null''], returned = Inr [1, 2, 3]\<rparr>"
  by (simp add: getFullProperty_def getFullProperty_loop.simps two_page_walk_served
      quirk_page_def last_page_def)

subsection \<open>What a walk accumulates\<close>

text \<open>
  Claim C5, as stated: whenever every page but the last says \<^verbatim>\<open>has_more: true\<close>, the
  walk returns the items of all the pages. It does not when a page that says so carries
  the cursor \<^verbatim>\<open>"null"\<close> (the walk stops there and the item of the last page is
  missing), nor when there are more than 100 pages (of 101 pages the last one is never
  requested and its item 100 is missing).
\<close>

theorem walk_leaves_pages_out:
  "quirk_walk 0 = Inr quirk_page \<and> quirk_walk 1 = Inr last_page
   \<and> has_more quirk_page \<and> \<not> has_more last_page
   \<and> concat (map results [quirk_page, last_page]) = [1, 2, 3]
   \<and> returned (paginateQuery quirk_walk) = Inr [1, 2]
   \<and> returned (getAllDatabaseRows quirk_walk) = Inr [1, 2]
   \<and> returned (paginateQuery (ends_at 100)) = Inr [0..<100]
   \<and> returned (getAllDatabaseRows (ends_at 100)) = Inr [0..<100]"
proof -
  let ?ps = "map (numbered_page True) [0..<100]"
  have served: "\<forall>i<length ?ps. ends_at 100 (length ([] :: string option list) + i) = Inr (?ps ! i)"
    by (simp add: ends_at_def)
  have a: "returned (paginateQuery (ends_at 100)) = Inr [0..<100]"
    using paginateQuery_loop_ceiling [OF served numbered_pages(1), of 0 100 None "[]"]
    unfolding paginateQuery_def numbered_pages(3) by simp
  have b: "returned (getAllDatabaseRows (ends_at 100)) = Inr [0..<100]"
    using getAllDatabaseRows_loop_ceiling [OF served numbered_pages(1), of 0 100 None "[]"]
    unfolding getAllDatabaseRows_def numbered_pages(3) by simp
  have c: "has_more quirk_page \<and> \<not> has_more last_page
           \<and> concat (map results [quirk_page, last_page]) = [1, 2, 3]"
    by (simp add: quirk_page_def last_page_def)
  from a b c show ?thesis
    by (simp add: two_page_walk_served quirk_bounded_walks)
qed

text \<open>
  Claim C5, amended. When the pages served are at most 100, every page but the last says
  \<^verbatim>\<open>has_more: true\<close> with a \<^verbatim>\<open>next_cursor\<close> that is a non-empty string other than
  \<^verbatim>\<open>"null"\<close>, and the last page says \<^verbatim>\<open>has_more: false\<close>, then \<^verbatim>\<open>paginateQuery\<close> and
  \<^verbatim>\<open>getAllDatabaseRows\<close> request each page once and return the concatenation of the
  pages' \<^verbatim>\<open>results\<close> in arrival order; its length is the sum of their lengths.
\<close>

theorem walk_collects_every_page:
  assumes "\<forall>i<length (qs @ [p]). srv i = Inr ((qs @ [p]) ! i)"
    and "\<forall>q\<in>set qs. continues q" and "\<not> has_more p" and "length (qs @ [p]) \<le> 100"
  shows "paginateQuery srv =
           \<lparr>requested = None # map next_cursor qs,
            returned = Inr (concat (map results (qs @ [p])))\<rparr>
       \<and> getAllDatabaseRows srv =
           \<lparr>requested = None # map next_cursor qs,
            returned = Inr (concat (map results (qs @ [p])))\<rparr>
       \<and> length (None # map next_cursor qs) = length (qs @ [p])
       \<and> length (concat (map results (qs @ [p]))) = sum_list (map (length \<circ> results) (qs @ [p]))"
proof -
  from assms(1)
  have served: "\<forall>i<length (qs @ [p]).
      srv (length ([] :: string option list) + i) = Inr ((qs @ [p]) ! i)"
    by simp
  from assms(3) have stop: "\<not> continues p"
    by (simp add: continues_def)
  from assms(4) have below: "0 + length qs < 100"
    by simp
  have a: "paginateQuery srv =
          \<lparr>requested = None # map next_cursor qs,
           returned = Inr (concat (map results (qs @ [p])))\<rparr>"
    using paginateQuery_loop_stops [OF served assms(2) stop below, of None "[]"]
    by (simp add: paginateQuery_def)
  have b: "getAllDatabaseRows srv =
          \<lparr>requested = None # map next_cursor qs,
           returned = Inr (concat (map results (qs @ [p])))\<rparr>"
    using getAllDatabaseRows_loop_stops [OF served assms(2) stop below, of None "[]"]
    by (simp add: getAllDatabaseRows_def)
  have c: "length (concat (map results (qs @ [p]))) = sum_list (map (length \<circ> results) (qs @ [p]))"
    by (simp add: length_concat comp_def)
  from a b c show ?thesis by simp
qed

theorem walk_collects_every_page_witness:
  "two_page_walk 0 = Inr first_page \<and> two_page_walk 1 = Inr last_page
   \<and> continues first_page \<and> \<not> has_more last_page
   \<and> paginateQuery two_page_walk =
       \<lparr>requested = [None, Some ''c1''], returned = Inr [1, 2, 3]\<rparr>
   \<and> getAllDatabaseRows two_page_walk =
       \<lparr>requested = [None, Some ''c1''], returned = Inr [1, 2, 3]\<rparr>"
proof -
  have served: "\<forall>i<length ([first_page] @ [last_page]).
      two_page_walk i = Inr (([first_page] @ [last_page]) ! i)"
    by (simp add: two_page_walk_served less_Suc_eq)
  have checks: "\<forall>q\<in>set [first_page]. continues q" "\<not> has_more last_page"
    "length ([first_page] @ [last_page]) \<le> 100"
    by (simp_all add: continues_def first_page_def last_page_def)
  from walk_collects_every_page [OF served checks] checks(1,2)
  show ?thesis
    by (simp add: two_page_walk_served first_page_def last_page_def)
qed

subsection \<open>The page ceiling\<close>

text \<open>
  Claim C7, as stated: a walk cut short by the ceiling returns a result that is tagged as
  truncated, so that the caller can tell it from an exhausted walk. Both walks return the
  array of items and nothing else: on a server that has exactly 100 pages and on a
  server that never runs out of pages they return the same value.
\<close>

theorem truncated_walk_is_not_tagged:
  "ends_at 99 99 = Inr (numbered_page False 99) \<and> endless 99 = Inr (numbered_page True 99)
   \<and> paginateQuery (ends_at 99) = paginateQuery endless
   \<and> getAllDatabaseRows (ends_at 99) = getAllDatabaseRows endless
   \<and> returned (paginateQuery endless) = Inr [0..<100]
   \<and> returned (getAllDatabaseRows endless) = Inr [0..<100]"
proof -
  have "(99::nat) < 100" by simp
  then have a: "paginateQuery (ends_at 99) = paginateQuery endless"
    and b: "getAllDatabaseRows (ends_at 99) = getAllDatabaseRows endless"
    by (simp_all add: ends_at_walk endless_walk del: upt_Suc)
  from a b show ?thesis
    by (simp add: endless_walk ends_at_def endless_def del: upt_Suc)
qed

text \<open>
  Claim C7, amended. When the first \<open>limit\<close> pages all pass the cursor check (more
  pages exist), the walk stops after exactly \<open>limit\<close> requests, throws no error and
  returns the items of these pages in order; the returned array carries no mark that
  tells it from the result of an exhausted walk. The ceiling of \<^verbatim>\<open>paginateQuery\<close> and
  \<^verbatim>\<open>getAllDatabaseRows\<close> is the constant 100.
\<close>

theorem walk_stops_at_ceiling:
  assumes "0 < limit" and "length ps = limit"
    and "\<forall>i<limit. srv i = Inr (ps ! i)" and "\<forall>q\<in>set ps. continues q"
  shows "paginateQuery_loop srv limit 0 None [] [] =
           \<lparr>requested = None # map next_cursor (butlast ps),
            returned = Inr (concat (map results ps))\<rparr>
       \<and> getAllDatabaseRows_loop srv limit 0 None [] [] =
           \<lparr>requested = None # map next_cursor (butlast ps),
            returned = Inr (concat (map results ps))\<rparr>
       \<and> length (None # map next_cursor (butlast ps)) = limit
       \<and> (limit = 100 \<longrightarrow>
            paginateQuery srv =
              \<lparr>requested = None # map next_cursor (butlast ps),
               returned = Inr (concat (map results ps))\<rparr>
          \<and> getAllDatabaseRows srv =
              \<lparr>requested = None # map next_cursor (butlast ps),
               returned = Inr (concat (map results ps))\<rparr>)"
proof -
  from assms(2,3)
  have served: "\<forall>i<length ps. srv (length ([] :: string option list) + i) = Inr (ps ! i)"
    by simp
  from assms(1,2) have ne: "ps \<noteq> []"
    by auto
  from assms(2) have full: "0 + length ps = limit"
    by simp
  from ne have cut: "take (length ps) (None # map next_cursor ps) = None # map next_cursor (butlast ps)"
    by (cases ps rule: rev_cases) simp_all
  have a: "paginateQuery_loop srv limit 0 None [] [] =
           \<lparr>requested = None # map next_cursor (butlast ps),
            returned = Inr (concat (map results ps))\<rparr>"
    using paginateQuery_loop_ceiling [OF served assms(4) full, of None "[]"]
    unfolding cut by simp
  have b: "getAllDatabaseRows_loop srv limit 0 None [] [] =
           \<lparr>requested = None # map next_cursor (butlast ps),
            returned = Inr (concat (map results ps))\<rparr>"
    using getAllDatabaseRows_loop_ceiling [OF served assms(4) ne full, of None "[]"]
    unfolding cut by simp
  from ne assms(2) have c: "length (None # map next_cursor (butlast ps)) = limit"
    by (cases ps rule: rev_cases) auto
  from a b c show ?thesis
    by (auto simp: paginateQuery_def getAllDatabaseRows_def)
qed

theorem walk_stops_at_ceiling_witness:
  "ends_at 2 0 = Inr (numbered_page True 0) \<and> ends_at 2 1 = Inr (numbered_page True 1)
   \<and> ends_at 2 2 = Inr (numbered_page False 2)
   \<and> continues (numbered_page True 0) \<and> continues (numbered_page True 1)
   \<and> paginateQuery_loop (ends_at 2) 2 0 None [] [] =
       \<lparr>requested = [None, Some ''next''], returned = Inr [0, 1]\<rparr>
   \<and> getAllDatabaseRows_loop (ends_at 2) 2 0 None [] [] =
       \<lparr>requested = [None, Some ''next''], returned = Inr [0, 1]\<rparr>
   \<and> paginateQuery endless =
       \<lparr>requested = None # replicate 99 (Some ''next''), returned = Inr [0..<100]\<rparr>
   \<and> getAllDatabaseRows endless =
       \<lparr>requested = None # replicate 99 (Some ''next''), returned = Inr [0..<100]\<rparr>"
proof -
  let ?two = "[numbered_page True 0, numbered_page True 1]"
  have served: "\<forall>i<2. ends_at 2 i = Inr (?two ! i)"
    by (simp add: ends_at_def less_Suc_eq numeral_2_eq_2)
  have checks: "\<forall>q\<in>set ?two. continues q"
    by (simp add: continues_def numbered_page_def)
  have small: "paginateQuery_loop (ends_at 2) 2 0 None [] [] =
       \<lparr>requested = [None, Some ''next''], returned = Inr [0, 1]\<rparr>
     \<and> getAllDatabaseRows_loop (ends_at 2) 2 0 None [] [] =
       \<lparr>requested = [None, Some ''next''], returned = Inr [0, 1]\<rparr>"
    using walk_stops_at_ceiling [of 2 ?two "ends_at 2", OF _ _ served checks]
    by (simp add: numbered_page_def)
  let ?ps = "map (numbered_page True) [0..<100]"
  have served100: "\<forall>i<100. endless i = Inr (?ps ! i)"
    by (simp add: endless_def)
  have "[0..<100] = [0..<99] @ [99::nat]"
    using upt_Suc_append [of 0 99] by simp
  then have last: "butlast ?ps = map (numbered_page True) [0..<99]"
    by (simp only: map_append list.map butlast_snoc)
  have large: "paginateQuery endless =
       \<lparr>requested = None # replicate 99 (Some ''next''), returned = Inr [0..<100]\<rparr>
     \<and> getAllDatabaseRows endless =
       \<lparr>requested = None # replicate 99 (Some ''next''), returned = Inr [0..<100]\<rparr>"
    using walk_stops_at_ceiling [of 100 ?ps endless, OF _ _ served100 numbered_pages(1)]
    unfolding last numbered_pages(3) numbered_pages(4) by simp
  have pages: "ends_at 2 0 = Inr (numbered_page True 0) \<and> ends_at 2 1 = Inr (numbered_page True 1)
     \<and> ends_at 2 2 = Inr (numbered_page False 2)
     \<and> continues (numbered_page True 0) \<and> continues (numbered_page True 1)"
    by (simp add: ends_at_def continues_def numbered_page_def)
  from small large pages show ?thesis by simp
qed

section \<open>Properties of the CallToolRequest handler\<close>

lemma unknown_tool:
  assumes "name \<notin> set tool_names"
  shows "call_tool_switch notionClient name args = Inl (ErrorObject (''Unknown tool: '' @ name))"
proof -
  from assms have "name \<noteq> ''notion_append_block_children''" "name \<noteq> ''notion_retrieve_block''"
    "name \<noteq> ''notion_retrieve_block_children''" "name \<noteq> ''notion_delete_block''"
    "name \<noteq> ''notion_update_block''" "name \<noteq> ''notion_retrieve_page''"
    "name \<noteq> ''notion_update_page_properties''" "name \<noteq> ''notion_list_all_users''"
    "name \<noteq> ''notion_retrieve_user''" "name \<noteq> ''notion_retrieve_bot_user''"
    "name \<noteq> ''notion_create_database''" "name \<noteq> ''notion_query_database''"
    "name \<noteq> ''notion_retrieve_database''" "name \<noteq> ''notion_update_database''"
    "name \<noteq> ''notion_create_database_item''" "name \<noteq> ''notion_create_comment''"
    "name \<noteq> ''notion_retrieve_comments''" "name \<noteq> ''notion_search''"
    unfolding tool_names_def by auto
  then show ?thesis
    unfolding call_tool_switch_def by (simp only: if_False)
qed

lemma retrieve_page_switch:
  "call_tool_switch notionClient ''notion_retrieve_page'' args =
     (if \<not> truthy (map_of args ''page_id'')
      then Inl (ErrorObject ''Missing required argument: page_id'')
      else notionClient (RetrievePage (map_of args ''page_id'')))"
  unfolding call_tool_switch_def by simp

lemma format_response_text:
  "format_response stringify2 flag response =
     \<lparr>content = [\<lparr>item_type = ''text'', item_text = stringify2 response\<rparr>]\<rparr>"
  by (simp add: format_response_def)

lemma handler_result:
  "call_tool_handler notionClient stringify2 stringify flag req =
     Inr (case call_tool_try notionClient stringify2 flag req of
            Inl error \<Rightarrow> error_result stringify error
          | Inr result \<Rightarrow> result)"
  by (simp add: call_tool_handler_def split: sum.split)

lemma call_tool_try_cases:
  "call_tool_try notionClient stringify2 flag req =
     (case arguments req of
        None \<Rightarrow> Inl (ErrorObject ''No arguments provided'')
      | Some args \<Rightarrow>
          (case call_tool_switch notionClient (tool_name req) args of
             Inl error \<Rightarrow> Inl error
           | Inr response \<Rightarrow>
               Inr \<lparr>content = [\<lparr>item_type = ''text'', item_text = stringify2 response\<rparr>]\<rparr>))"
  by (simp add: call_tool_try_def format_response_text cong: option.case_cong sum.case_cong)

text \<open>
  Claim C9. For every request the handler returns a result whose content is one text
  item, and no exception leaves it. A request without arguments, an unknown tool name, a
  missing required argument and an error thrown by the client all end in the
  \<^verbatim>\<open>catch\<close> block, which returns the text \<^verbatim>\<open>JSON.stringify({ error: message })\<close>.
\<close>

theorem call_tool_handler_always_returns_text:
  "(\<exists>t. call_tool_handler notionClient stringify2 stringify flag req =
          Inr \<lparr>content = [\<lparr>item_type = ''text'', item_text = t\<rparr>]\<rparr>)
   \<and> (arguments req = None \<longrightarrow>
        call_tool_handler notionClient stringify2 stringify flag req =
          Inr \<lparr>content = [\<lparr>item_type = ''text'',
                 item_text = stringify (JObj [(''error'', JStr ''No arguments provided'')])\<rparr>]\<rparr>)
   \<and> (arguments req = Some args
        \<and> call_tool_switch notionClient (tool_name req) args = Inl error \<longrightarrow>
        call_tool_handler notionClient stringify2 stringify flag req =
          Inr \<lparr>content = [\<lparr>item_type = ''text'',
                 item_text = stringify (JObj [(''error'', JStr (error_message error))])\<rparr>]\<rparr>)
   \<and> (tool_name req \<notin> set tool_names \<longrightarrow>
        call_tool_switch notionClient (tool_name req) args =
          Inl (ErrorObject (''Unknown tool: '' @ tool_name req)))
   \<and> (\<not> truthy (map_of args ''page_id'') \<longrightarrow>
        call_tool_switch notionClient ''notion_retrieve_page'' args =
          Inl (ErrorObject ''Missing required argument: page_id''))
   \<and> (truthy (map_of args ''page_id'')
        \<and> notionClient (RetrievePage (map_of args ''page_id'')) = Inl error \<longrightarrow>
        call_tool_switch notionClient ''notion_retrieve_page'' args = Inl error)"
proof -
  have a: "\<exists>t. call_tool_handler notionClient stringify2 stringify flag req =
            Inr \<lparr>content = [\<lparr>item_type = ''text'', item_text = t\<rparr>]\<rparr>"
    by (simp add: handler_result call_tool_try_cases error_result_def
        split: option.split sum.split)
  have b: "call_tool_handler notionClient stringify2 stringify flag req =
          Inr \<lparr>content = [\<lparr>item_type = ''text'',
                 item_text = stringify (JObj [(''error'', JStr ''No arguments provided'')])\<rparr>]\<rparr>"
    if "arguments req = None"
    using that by (simp add: handler_result call_tool_try_cases error_result_def)
  have c: "call_tool_handler notionClient stringify2 stringify flag req =
          Inr \<lparr>content = [\<lparr>item_type = ''text'',
                 item_text = stringify (JObj [(''error'', JStr (error_message error))])\<rparr>]\<rparr>"
    if "arguments req = Some args \<and> call_tool_switch notionClient (tool_name req) args = Inl error"
    using that by (simp add: handler_result call_tool_try_cases error_result_def)
  have d: "call_tool_switch notionClient (tool_name req) args =
          Inl (ErrorObject (''Unknown tool: '' @ tool_name req))"
    if "tool_name req \<notin> set tool_names"
    using that by (rule unknown_tool)
  have e: "call_tool_switch notionClient ''notion_retrieve_page'' args =
          Inl (ErrorObject ''Missing required argument: page_id'')"
    if "\<not> truthy (map_of args ''page_id'')"
    using that by (simp add: retrieve_page_switch)
  have f: "call_tool_switch notionClient ''notion_retrieve_page'' args = Inl error"
    if "truthy (map_of args ''page_id'')
        \<and> notionClient (RetrievePage (map_of args ''page_id'')) = Inl error"
    using that by (simp add: retrieve_page_switch)
  from a b c d e f show ?thesis by blast
qed

theorem call_tool_handler_always_returns_text_witness:
  "call_tool_handler failing_client json_stringify json_stringify False
       \<lparr>tool_name = ''notion_retrieve_page'', arguments = None\<rparr> =
     Inr \<lparr>content = [\<lparr>item_type = ''text'',
            item_text = json_stringify (JObj [(''error'', JStr ''No arguments provided'')])\<rparr>]\<rparr>
   \<and> call_tool_handler failing_client json_stringify json_stringify False
       \<lparr>tool_name = ''notion_fly'', arguments = Some []\<rparr> =
     Inr \<lparr>content = [\<lparr>item_type = ''text'',
            item_text = json_stringify (JObj [(''error'', JStr ''Unknown tool: notion_fly'')])\<rparr>]\<rparr>
   \<and> call_tool_handler failing_client json_stringify json_stringify False
       \<lparr>tool_name = ''notion_retrieve_page'', arguments = Some []\<rparr> =
     Inr \<lparr>content = [\<lparr>item_type = ''text'',
            item_text = json_stringify
              (JObj [(''error'', JStr ''Missing required argument: page_id'')])\<rparr>]\<rparr>
   \<and> call_tool_handler failing_client json_stringify json_stringify False
       \<lparr>tool_name = ''notion_retrieve_page'', arguments = Some [(''page_id'', JStr ''p1'')]\<rparr> =
     Inr \<lparr>content = [\<lparr>item_type = ''text'',
            item_text = json_stringify (JObj [(''error'', JStr ''Could not find page'')])\<rparr>]\<rparr>
   \<and> json_stringify (JObj [(''error'', JStr ''Could not find page'')]) =
       [CHR ''{'', CHR 0x22] @ ''error'' @ [CHR 0x22, CHR '':'', CHR 0x22]
         @ ''Could not find page'' @ [CHR 0x22, CHR ''}'']"
proof -
  let ?h = "call_tool_handler failing_client json_stringify json_stringify False"
  let ?none = "\<lparr>tool_name = ''notion_retrieve_page'', arguments = None\<rparr>"
  let ?fly = "\<lparr>tool_name = ''notion_fly'', arguments = Some []\<rparr>"
  let ?bare = "\<lparr>tool_name = ''notion_retrieve_page'', arguments = Some []\<rparr>"
  let ?page = "\<lparr>tool_name = ''notion_retrieve_page'', arguments = Some [(''page_id'', JStr ''p1'')]\<rparr>"
  have no_args: "arguments ?none = None"
    by simp
  have not_a_tool: "tool_name ?fly \<notin> set tool_names"
    by (simp add: tool_names_def)
  have no_page_id: "\<not> truthy (map_of [] ''page_id'')"
    by simp
  have throws: "truthy (map_of [(''page_id'', JStr ''p1'')] ''page_id'')
      \<and> failing_client (RetrievePage (map_of [(''page_id'', JStr ''p1'')] ''page_id''))
          = Inl (ErrorObject ''Could not find page'')"
    by (simp add: failing_client_def)
  note t = call_tool_handler_always_returns_text
  have r1: "?h ?none = Inr \<lparr>content = [\<lparr>item_type = ''text'',
      item_text = json_stringify (JObj [(''error'', JStr ''No arguments provided'')])\<rparr>]\<rparr>"
    using t [of failing_client json_stringify json_stringify False ?none] no_args by blast
  have s2: "call_tool_switch failing_client (tool_name ?fly) [] =
      Inl (ErrorObject (''Unknown tool: '' @ tool_name ?fly))"
    using t [of failing_client json_stringify json_stringify False ?fly "[]"] not_a_tool by blast
  have r2: "?h ?fly = Inr \<lparr>content = [\<lparr>item_type = ''text'',
      item_text = json_stringify (JObj [(''error'', JStr ''Unknown tool: notion_fly'')])\<rparr>]\<rparr>"
    using t [of failing_client json_stringify json_stringify False ?fly "[]"
        "ErrorObject (''Unknown tool: '' @ tool_name ?fly)"] s2
    by simp
  have s3: "call_tool_switch failing_client ''notion_retrieve_page'' [] =
      Inl (ErrorObject ''Missing required argument: page_id'')"
    using t [of failing_client json_stringify json_stringify False ?bare "[]"] no_page_id by blast
  have r3: "?h ?bare = Inr \<lparr>content = [\<lparr>item_type = ''text'',
      item_text = json_stringify (JObj [(''error'', JStr ''Missing required argument: page_id'')])\<rparr>]\<rparr>"
    using t [of failing_client json_stringify json_stringify False ?bare "[]"
        "ErrorObject ''Missing required argument: page_id''"] s3
    by simp
  have s4: "call_tool_switch failing_client ''notion_retrieve_page'' [(''page_id'', JStr ''p1'')] =
      Inl (ErrorObject ''Could not find page'')"
    using t [of failing_client json_stringify json_stringify False ?page
        "[(''page_id'', JStr ''p1'')]" "ErrorObject ''Could not find page''"] throws
    by blast
  have r4: "?h ?page = Inr \<lparr>content = [\<lparr>item_type = ''text'',
      item_text = json_stringify (JObj [(''error'', JStr ''Could not find page'')])\<rparr>]\<rparr>"
    using t [of failing_client json_stringify json_stringify False ?page
        "[(''page_id'', JStr ''p1'')]" "ErrorObject ''Could not find page''"] s4
    by simp
  have shown: "json_stringify (JObj [(''error'', JStr ''Could not find page'')]) =
       [CHR ''{'', CHR 0x22] @ ''error'' @ [CHR 0x22, CHR '':'', CHR 0x22]
         @ ''Could not find page'' @ [CHR 0x22, CHR ''}'']"
    by (simp add: quote_def escape_def)
  from r1 r2 r3 r4 shown show ?thesis by blast
qed

text \<open>
  Claim C10. The text of a successful response is \<^verbatim>\<open>JSON.stringify(response, null, 2)\<close>
  whether \<^verbatim>\<open>NOTION_MARKDOWN_CONVERSION\<close> is set or not: the two branches of the
  formatting compute the same result, and so does the handler on every request.
\<close>

theorem markdown_flag_has_no_effect:
  "format_response stringify2 flag response =
     \<lparr>content = [\<lparr>item_type = ''text'', item_text = stringify2 response\<rparr>]\<rparr>
   \<and> format_response stringify2 True response = format_response stringify2 False response
   \<and> call_tool_handler notionClient stringify2 stringify True req =
       call_tool_handler notionClient stringify2 stringify False req"
  by (simp add: format_response_text handler_result call_tool_try_cases)

end
